theory Spec2Isabelle
  imports Complex_Main "HOL-Library.Char_ord" "HOL-Library.List_Lexorder"
    "HOL-Library.Product_Lexorder"
begin

section \<open>Data model: tabular datasets\<close>

text \<open>
  The audit script \<^verbatim>\<open>scripts/audit_validation.py\<close> reads its dataset with
  \<^verbatim>\<open>pd.read_csv\<close>, so a column is a homogeneous series of one of four dtypes:
  \<^verbatim>\<open>int64\<close> (no missing values), \<^verbatim>\<open>float64\<close> (missing values are NaN),
  \<^verbatim>\<open>bool\<close>, and \<^verbatim>\<open>object\<close> (strings, missing values are NaN).
  A missing cell is \<open>None\<close>. Column names are ASCII strings and are kept in file order.
\<close>

datatype series =
    IntS "int list"
  | FloatS "real option list"
  | BoolS "bool list"
  | StrS "string option list"

type_synonym dataframe = "(string \<times> series) list"

datatype exn =
    ValueError string
  | KeyError string
  | IndexError

definition columns :: "dataframe \<Rightarrow> string list" where
  "columns df = map fst df"

text \<open>\<^verbatim>\<open>df[c]\<close>: the series stored under a column label.\<close>

definition getcol :: "dataframe \<Rightarrow> string \<Rightarrow> series option" where
  "getcol df c = map_of df c"

fun series_len :: "series \<Rightarrow> nat" where
  "series_len (IntS xs) = length xs"
| "series_len (FloatS xs) = length xs"
| "series_len (BoolS xs) = length xs"
| "series_len (StrS xs) = length xs"

text \<open>\<^verbatim>\<open>len(df)\<close>: the number of rows (all columns have the same length).\<close>

fun nrows :: "dataframe \<Rightarrow> nat" where
  "nrows [] = 0"
| "nrows ((c, s) # df) = series_len s"

text \<open>\<^verbatim>\<open>pd.api.types.is_numeric_dtype\<close> and \<^verbatim>\<open>is_integer_dtype\<close>.\<close>

fun is_numeric_dtype :: "series \<Rightarrow> bool" where
  "is_numeric_dtype (StrS xs) = False"
| "is_numeric_dtype s = True"

fun is_integer_dtype :: "series \<Rightarrow> bool" where
  "is_integer_dtype (IntS xs) = True"
| "is_integer_dtype s = False"

section \<open>Strings\<close>

text \<open>\<^verbatim>\<open>str.lower\<close> on ASCII names.\<close>

definition lower_char :: "char \<Rightarrow> char" where
  "lower_char c =
     (let n = (of_char c :: nat) in if 65 \<le> n \<and> n \<le> 90 then char_of (n + 32) else c)"

definition lower :: "string \<Rightarrow> string" where
  "lower s = map lower_char s"

text \<open>\<^verbatim>\<open>t in s\<close> on strings: \<open>t\<close> occurs in \<open>s\<close> as a contiguous substring.\<close>

fun starts_with :: "string \<Rightarrow> string \<Rightarrow> bool" where
  "starts_with [] s = True"
| "starts_with (x # t) [] = False"
| "starts_with (x # t) (y # s) = (x = y \<and> starts_with t s)"

fun contains :: "string \<Rightarrow> string \<Rightarrow> bool" where
  "contains t [] = (t = [])"
| "contains t (y # s) = (starts_with t (y # s) \<or> contains t s)"

text \<open>\<^verbatim>\<open>sep.join(xs)\<close>.\<close>

fun join :: "string \<Rightarrow> string list \<Rightarrow> string" where
  "join sep [] = []"
| "join sep [x] = x"
| "join sep (x # y # xs) = x @ sep @ join sep (y # xs)"

section \<open>Configuration constants\<close>

definition TARGET_PREFERRED :: "string list" where
  "TARGET_PREFERRED = [''Diagnosis'', ''diagnosis'']"

definition TARGET_CANDIDATE_HINTS :: "string list" where
  "TARGET_CANDIDATE_HINTS = [''diagnosis'', ''label'', ''target'', ''alz'', ''outcome'']"

definition SITE_TOKENS :: "string list" where
  "SITE_TOKENS = [''site'', ''hospital'', ''center'', ''centre'', ''clinic'', ''location'']"

definition DATE_TOKENS :: "string list" where
  "DATE_TOKENS = [''date'', ''year'']"

section \<open>Target detection\<close>

text \<open>
  The test of the binary fallback, \<^verbatim>\<open>vals = df[c].dropna().unique()\<close> followed by
  \<^verbatim>\<open>len(vals) <= 3 and set(np.unique(vals)).issubset({0, 1})\<close>. Python compares
  \<open>0 == 0.0 == False\<close> and \<open>1 == 1.0 == True\<close>, and no string equals a number.
\<close>

fun dropna :: "'a option list \<Rightarrow> 'a list" where
  "dropna [] = []"
| "dropna (None # xs) = dropna xs"
| "dropna (Some x # xs) = x # dropna xs"

fun is_binary_series :: "series \<Rightarrow> bool" where
  "is_binary_series (IntS xs) =
     (length (remdups xs) \<le> 3 \<and> list_all (\<lambda>v. v = 0 \<or> v = 1) (remdups xs))"
| "is_binary_series (FloatS xs) =
     (length (remdups (dropna xs)) \<le> 3 \<and> list_all (\<lambda>v. v = 0 \<or> v = 1) (remdups (dropna xs)))"
| "is_binary_series (BoolS xs) = (length (remdups xs) \<le> 3)"
| "is_binary_series (StrS xs) =
     (length (remdups (dropna xs)) \<le> 3 \<and> list_all (\<lambda>v. False) (remdups (dropna xs)))"

definition is_binary_column :: "dataframe \<Rightarrow> string \<Rightarrow> bool" where
  "is_binary_column df c = (case getcol df c of None \<Rightarrow> False | Some s \<Rightarrow> is_binary_series s)"

definition binary_candidates :: "dataframe \<Rightarrow> string list" where
  "binary_candidates df = filter (is_binary_column df) (columns df)"

text \<open>
  \<^verbatim>\<open>lower_cols = {c.lower(): c for c in df.columns}\<close>: a later column overwrites an
  earlier one with the same lowercased name.
\<close>

definition lower_cols :: "dataframe \<Rightarrow> string \<rightharpoonup> string" where
  "lower_cols df = map_of (rev (map (\<lambda>c. (lower c, c)) (columns df)))"

text \<open>The loop over the hint words: the first hint that is a key of \<open>lower_cols\<close>.\<close>

fun hint_loop :: "(string \<rightharpoonup> string) \<Rightarrow> string list \<Rightarrow> string option" where
  "hint_loop lc [] = None"
| "hint_loop lc (hint # hints) =
     (case lc hint of Some c \<Rightarrow> Some c | None \<Rightarrow> hint_loop lc hints)"

fun preferred_loop :: "dataframe \<Rightarrow> string list \<Rightarrow> string option" where
  "preferred_loop df [] = None"
| "preferred_loop df (name # names) =
     (if name \<in> set (columns df) then Some name else preferred_loop df names)"

definition ambiguous_msg :: "string list \<Rightarrow> string" where
  "ambiguous_msg cands =
     ''Unable to uniquely determine target column. Candidates: ''
     @ join '', '' cands
     @ ''. Please rename your target to 'Diagnosis' or pass explicitly.''"

definition detect_target :: "dataframe \<Rightarrow> exn + string" where
  "detect_target df =
     (case preferred_loop df TARGET_PREFERRED of
        Some name \<Rightarrow> Inr name
      | None \<Rightarrow>
         (case hint_loop (lower_cols df) TARGET_CANDIDATE_HINTS of
            Some c \<Rightarrow> Inr c
          | None \<Rightarrow>
             (case binary_candidates df of
                [c] \<Rightarrow> Inr c
              | cands \<Rightarrow> Inl (ValueError (ambiguous_msg cands)))))"

section \<open>Library collaborators\<close>

text \<open>
  The script calls into pandas and scikit-learn. What those calls compute is not part of
  this repository, so each is a parameter of the model:
  \<^item> \<open>to_datetime_ok s\<close>: \<^verbatim>\<open>pd.to_datetime(s, errors="raise")\<close> returns without raising;
  \<^item> \<open>roc_auc_score y x\<close>: the area under the ROC curve of the scores \<open>x\<close> (\<open>None\<close> is
    NaN) against the labels \<open>y\<close>, or \<open>None\<close> when the call raises;
  \<^item> \<open>mutual_info_classif X y\<close>: one estimate per column of the encoded matrix \<open>X\<close>;
  \<^item> \<open>fl r\<close>: the double nearest to the exact result \<open>r\<close> of a floating-point operation.
\<close>

record library =
  to_datetime_ok :: "series \<Rightarrow> bool"
  roc_auc_score :: "int list \<Rightarrow> real option list \<Rightarrow> real option"
  mutual_info_classif :: "(string \<times> real list) list \<Rightarrow> int list \<Rightarrow> real list"
  fl :: "real \<Rightarrow> real"

section \<open>Column roles by name tokens\<close>

text \<open>
  \<^verbatim>\<open>find_columns_by_tokens\<close>: the columns whose lowercased name contains a token,
  without duplicates, in sorted order (\<^verbatim>\<open>sorted(list(dict.fromkeys(cols)))\<close>).
\<close>

definition find_columns_by_tokens :: "dataframe \<Rightarrow> string list \<Rightarrow> string list" where
  "find_columns_by_tokens df tokens =
     sort (remdups (filter (\<lambda>c. list_ex (\<lambda>t. contains t (lower c)) tokens) (columns df)))"

definition get_site_column :: "dataframe \<Rightarrow> string option" where
  "get_site_column df =
     (case find_columns_by_tokens df SITE_TOKENS of [] \<Rightarrow> None | c # cs \<Rightarrow> Some c)"

text \<open>
  The loop of \<^verbatim>\<open>get_date_column\<close>: each candidate is probed with
  \<^verbatim>\<open>pd.to_datetime\<close>; when that raises, the handler tests the integer dtype.
  \<open>None\<close> means that the loop ended without returning. Candidates are labels of
  \<open>df\<close>, so \<^verbatim>\<open>df[c]\<close> is always found.
\<close>

fun date_loop :: "library \<Rightarrow> dataframe \<Rightarrow> string list \<Rightarrow> string option" where
  "date_loop lib df [] = None"
| "date_loop lib df (c # cs) =
     (case getcol df c of
        None \<Rightarrow> date_loop lib df cs
      | Some s \<Rightarrow>
          if to_datetime_ok lib s then Some c
          else if is_integer_dtype s then Some c
          else date_loop lib df cs)"

definition get_date_column :: "library \<Rightarrow> dataframe \<Rightarrow> string option" where
  "get_date_column lib df =
     (let candidates = find_columns_by_tokens df DATE_TOKENS in
      case date_loop lib df candidates of
        Some c \<Rightarrow> Some c
      | None \<Rightarrow> (case candidates of [] \<Rightarrow> None | c # cs \<Rightarrow> Some c))"

section \<open>Double-precision products\<close>

text \<open>
  \<^verbatim>\<open>int(0.7 * n)\<close> converts the row count to a double, multiplies by the double nearest
  to 0.7 and truncates. A positive double is \<open>m * 2 ^ e\<close> with \<open>m < 2 ^ 53\<close>;
  \<open>round_to_53\<close> rounds a natural number to the nearest number with at most 53
  significant bits, ties to even. The literals \<^verbatim>\<open>0.7\<close> and \<^verbatim>\<open>0.85\<close> are the doubles
  \<open>6305039478318694 / 2 ^ 53\<close> and \<open>7656119366529843 / 2 ^ 53\<close>. Row counts are far below
  the largest double, so overflow is not modelled.
\<close>

fun bit_length :: "nat \<Rightarrow> nat" where
  "bit_length n = (if n = 0 then 0 else Suc (bit_length (n div 2)))"

definition round_to_53 :: "nat \<Rightarrow> nat" where
  "round_to_53 p =
     (let b = bit_length p in
      if b \<le> 53 then p
      else
        let s = b - 53; q = p div 2 ^ s; r = p mod 2 ^ s; h = 2 ^ (s - 1)
        in (if h < r \<or> (r = h \<and> odd q) then q + 1 else q) * 2 ^ s)"

definition float_of_nat :: "nat \<Rightarrow> nat" where
  "float_of_nat n = round_to_53 n"

text \<open>\<open>int_of_product m n\<close> is \<^verbatim>\<open>int(x * n)\<close> for the double \<open>x = m / 2 ^ 53\<close>.\<close>

definition int_of_product :: "nat \<Rightarrow> nat \<Rightarrow> int" where
  "int_of_product m n = int (round_to_53 (m * float_of_nat n) div 2 ^ 53)"

definition DOUBLE_0_7 :: nat where
  "DOUBLE_0_7 = 6305039478318694"

definition DOUBLE_0_85 :: nat where
  "DOUBLE_0_85 = 7656119366529843"

section \<open>Temporal and site feasibility\<close>

datatype temporal_report =
    TemporalSizes string int int int
  | TemporalSkipped string

datatype site_report =
    SiteGroups string nat
  | SiteSkipped string

record validation_report =
  temporal :: temporal_report
  site :: site_report

text \<open>
  \<^verbatim>\<open>df[site_col].astype(str).nunique()\<close>: the number of distinct values; a missing
  value becomes the string \<^verbatim>\<open>nan\<close>.
\<close>

fun nunique_str :: "series \<Rightarrow> nat" where
  "nunique_str (IntS xs) = length (remdups xs)"
| "nunique_str (FloatS xs) = length (remdups xs)"
| "nunique_str (BoolS xs) = length (remdups xs)"
| "nunique_str (StrS xs) =
     length (remdups (map (\<lambda>v. case v of None \<Rightarrow> ''nan'' | Some s \<Rightarrow> s) xs))"

definition temporal_part :: "library \<Rightarrow> dataframe \<Rightarrow> string \<Rightarrow> exn + temporal_report" where
  "temporal_part lib df target =
     (case get_date_column lib df of
        None \<Rightarrow> Inr (TemporalSkipped ''No date/year column detected; temporal split skipped.'')
      | Some date_col \<Rightarrow>
          if date_col = [] then
            Inr (TemporalSkipped ''No date/year column detected; temporal split skipped.'')
          else if target \<notin> set (columns df) then Inl (KeyError target)
          else
            let n = nrows df;
                tr_end = int_of_product DOUBLE_0_7 n;
                val_end = int_of_product DOUBLE_0_85 n
            in Inr (TemporalSizes date_col (tr_end - 0) (val_end - tr_end) (int n - val_end)))"

definition site_part :: "dataframe \<Rightarrow> site_report" where
  "site_part df =
     (case get_site_column df of
        None \<Rightarrow>
          SiteSkipped ''No site/hospital column detected; site validation suggestion recorded.''
      | Some site_col \<Rightarrow>
          if site_col = [] then
            SiteSkipped ''No site/hospital column detected; site validation suggestion recorded.''
          else
            (case getcol df site_col of
               None \<Rightarrow> SiteGroups site_col 0
             | Some s \<Rightarrow> SiteGroups site_col (nunique_str s)))"

definition temporal_site_validation ::
  "library \<Rightarrow> dataframe \<Rightarrow> string \<Rightarrow> exn + validation_report" where
  "temporal_site_validation lib df target =
     (case temporal_part lib df target of
        Inl e \<Rightarrow> Inl e
      | Inr t \<Rightarrow> Inr \<lparr>temporal = t, site = site_part df\<rparr>)"

section \<open>Leakage scoring\<close>

text \<open>The values of a numeric column as scores; \<open>None\<close> is NaN.\<close>

fun numeric_values :: "series \<Rightarrow> real option list" where
  "numeric_values (IntS xs) = map (\<lambda>v. Some (real_of_int v)) xs"
| "numeric_values (FloatS xs) = xs"
| "numeric_values (BoolS xs) = map (\<lambda>b. Some (if b then 1 else 0)) xs"
| "numeric_values (StrS xs) = []"

text \<open>
  \<^verbatim>\<open>pd.get_dummies(x, dummy_na=True)\<close>: one indicator column per distinct non-missing
  value, in sorted order, then the indicator of the missing values (label \<open>None\<close>).
\<close>

definition get_dummies :: "string option list \<Rightarrow> (string option \<times> bool list) list" where
  "get_dummies xs =
     map (\<lambda>v. (Some v, map (\<lambda>x. x = Some v) xs)) (sort (remdups (dropna xs)))
     @ [(None, map (\<lambda>x. x = None) xs)]"

text \<open>\<^verbatim>\<open>xs.mean(axis=1)\<close>: the mean of the indicator columns, row by row.\<close>

definition row_mean :: "bool list list \<Rightarrow> nat \<Rightarrow> real list" where
  "row_mean cols n =
     map (\<lambda>i. (\<Sum>col\<leftarrow>cols. if col ! i then 1 else 0) / real (length cols)) [0..<n]"

text \<open>
  The body of the \<^verbatim>\<open>try\<close> block of \<^verbatim>\<open>single_feature_auc\<close>, up to the score;
  \<open>None\<close> when it raises, which the handler turns into \<^verbatim>\<open>continue\<close>.
\<close>

definition feature_score :: "library \<Rightarrow> dataframe \<Rightarrow> int list \<Rightarrow> string \<Rightarrow> real option" where
  "feature_score lib df y c =
     (case getcol df c of
        None \<Rightarrow> None
      | Some x \<Rightarrow>
          if is_numeric_dtype x then roc_auc_score lib y (numeric_values x)
          else
            (case x of
               StrS xs \<Rightarrow>
                 roc_auc_score lib y
                   (map Some (row_mean (map snd (get_dummies xs)) (length xs)))
             | _ \<Rightarrow> None))"

text \<open>\<^verbatim>\<open>max(score, 1 - score)\<close>, the subtraction rounded to a double.\<close>

definition chance_distance :: "library \<Rightarrow> real \<Rightarrow> real" where
  "chance_distance lib score = max score (fl lib (1 - score))"

fun auc_loop ::
  "library \<Rightarrow> dataframe \<Rightarrow> int list \<Rightarrow> string list \<Rightarrow> (string \<rightharpoonup> real) \<Rightarrow> (string \<rightharpoonup> real)"
where
  "auc_loop lib df y [] aucs = aucs"
| "auc_loop lib df y (c # cs) aucs =
     (case feature_score lib df y c of
        None \<Rightarrow> auc_loop lib df y cs aucs
      | Some score \<Rightarrow> auc_loop lib df y cs (aucs(c \<mapsto> chance_distance lib score)))"

definition single_feature_auc :: "library \<Rightarrow> dataframe \<Rightarrow> int list \<Rightarrow> (string \<rightharpoonup> real)" where
  "single_feature_auc lib df y = auc_loop lib df y (columns df) Map.empty"

text \<open>
  \<^verbatim>\<open>mutual_info_scores\<close>. The loop replaces each non-numeric column by its indicator
  columns, named \<^verbatim>\<open>prefix_value\<close> (\<^verbatim>\<open>prefix_nan\<close> for the missing values) and appended
  at the end; \<^verbatim>\<open>drop(columns=[c])\<close> removes every column labelled \<open>c\<close>.
\<close>

definition prefixed_dummies :: "string \<Rightarrow> series \<Rightarrow> dataframe" where
  "prefixed_dummies c s =
     (case s of
        StrS xs \<Rightarrow>
          map (\<lambda>(v, ind). (c @ ''_'' @ (case v of None \<Rightarrow> ''nan'' | Some t \<Rightarrow> t), BoolS ind))
            (get_dummies xs)
      | _ \<Rightarrow> [])"

fun encode_loop :: "string list \<Rightarrow> dataframe \<Rightarrow> exn + dataframe" where
  "encode_loop [] X_enc = Inr X_enc"
| "encode_loop (c # cs) X_enc =
     (case getcol X_enc c of
        None \<Rightarrow> Inl (KeyError c)
      | Some s \<Rightarrow>
          if is_numeric_dtype s then encode_loop cs X_enc
          else encode_loop cs (filter (\<lambda>(n, t). n \<noteq> c) X_enc @ prefixed_dummies c s))"

text \<open>\<^verbatim>\<open>X_enc.fillna(0)\<close>, column by column.\<close>

fun fillna0 :: "series \<Rightarrow> real list" where
  "fillna0 (IntS xs) = map real_of_int xs"
| "fillna0 (FloatS xs) = map (\<lambda>v. case v of None \<Rightarrow> 0 | Some r \<Rightarrow> r) xs"
| "fillna0 (BoolS xs) = map (\<lambda>b. if b then 1 else 0) xs"
| "fillna0 (StrS xs) = []"

definition mutual_info_scores ::
  "library \<Rightarrow> dataframe \<Rightarrow> int list \<Rightarrow> exn + (string \<rightharpoonup> real)" where
  "mutual_info_scores lib X y =
     (case encode_loop (columns X) X of
        Inl e \<Rightarrow> Inl e
      | Inr X_enc \<Rightarrow>
          let mi = mutual_info_classif lib (map (\<lambda>(n, s). (n, fillna0 s)) X_enc) y
          in if length mi < length X_enc then Inl IndexError
             else Inr (map_of (rev (zip (columns X_enc) mi))))"

section \<open>The leakage report of the orchestrator\<close>

text \<open>
  One entry per feature: its name, \<^verbatim>\<open>aucs.get(c, np.nan)\<close> and \<^verbatim>\<open>mi.get(c, np.nan)\<close>;
  \<open>None\<close> is NaN. The sort key is
  \<^verbatim>\<open>(not math.isnan(t[1]) and -t[1], not math.isnan(t[2]) and -t[2])\<close>: a NaN gives
  \<^verbatim>\<open>False\<close>, which Python orders as the number 0. Tuples compare lexicographically and
  \<^verbatim>\<open>sorted\<close> is stable.
\<close>

type_synonym entry = "string \<times> real option \<times> real option"

definition nan_key :: "real option \<Rightarrow> real" where
  "nan_key v = (case v of None \<Rightarrow> 0 | Some r \<Rightarrow> - r)"

definition suspicious_key :: "entry \<Rightarrow> real \<times> real" where
  "suspicious_key t = (case t of (c, a, m) \<Rightarrow> (nan_key a, nan_key m))"

definition drop_target :: "dataframe \<Rightarrow> string \<Rightarrow> dataframe" where
  "drop_target df target = filter (\<lambda>(c, s). c \<noteq> target) df"

definition suspicious :: "(string \<rightharpoonup> real) \<Rightarrow> (string \<rightharpoonup> real) \<Rightarrow> dataframe \<Rightarrow> string \<Rightarrow> entry list" where
  "suspicious aucs mi df target =
     sort_key suspicious_key
       (map (\<lambda>c. (c, aucs c, mi c)) (filter (\<lambda>c. c \<noteq> target) (columns df)))"

definition top_suspicious :: "library \<Rightarrow> dataframe \<Rightarrow> string \<Rightarrow> int list \<Rightarrow> exn + entry list" where
  "top_suspicious lib df target y =
     (let aucs = single_feature_auc lib (drop_target df target) y in
      case mutual_info_scores lib (drop_target df target) y of
        Inl e \<Rightarrow> Inl e
      | Inr mi \<Rightarrow> Inr (take 30 (suspicious aucs mi df target)))"

section \<open>Orderings and reference values used in the statements\<close>

text \<open>
  The order that the "top suspicious" list is meant to have: features with a discriminative
  score before features without one, higher discriminative scores first, and on equal
  discriminative scores the higher mutual information first, a missing mutual information
  counting as 0.
\<close>

definition mi_or_zero :: "real option \<Rightarrow> real" where
  "mi_or_zero m = (case m of None \<Rightarrow> 0 | Some r \<Rightarrow> r)"

definition precedes :: "entry \<Rightarrow> entry \<Rightarrow> bool" where
  "precedes t u =
     (case (fst (snd t), fst (snd u)) of
        (Some x, Some z) \<Rightarrow> z < x \<or> (x = z \<and> mi_or_zero (snd (snd u)) \<le> mi_or_zero (snd (snd t)))
      | (Some x, None) \<Rightarrow> True
      | (None, Some z) \<Rightarrow> False
      | (None, None) \<Rightarrow> mi_or_zero (snd (snd u)) \<le> mi_or_zero (snd (snd t)))"

text \<open>The exact split points \<open>\<lfloor>0.7 n\<rfloor>\<close> and \<open>\<lfloor>0.85 n\<rfloor>\<close> of a 70/15/15 split.\<close>

definition exact_train_end :: "nat \<Rightarrow> int" where
  "exact_train_end n = \<lfloor>7 / 10 * real n\<rfloor>"

definition exact_val_end :: "nat \<Rightarrow> int" where
  "exact_val_end n = \<lfloor>85 / 100 * real n\<rfloor>"







section \<open>A sample library\<close>

text \<open>
  A concrete library for the examples. Its date parser follows \<^verbatim>\<open>pd.to_datetime\<close> on
  the kinds of column the sample datasets hold: an \<^verbatim>\<open>int64\<close> column is read as
  nanoseconds since the epoch and never raises, a \<^verbatim>\<open>float64\<close> column likewise as long as
  its values fit in 64 bits (NaN becomes NaT), a \<^verbatim>\<open>bool\<close> column raises, and a text
  column is accepted when every present value has the form \<^verbatim>\<open>YYYY-MM-DD\<close>. The area
  under the ROC curve is computed pair by pair, as the probability that a positive case
  has a higher score than a negative case (a tie counts one half; the call raises on NaN
  scores, on labels other than 0 and 1 and when a class is absent). A simple association
  measure stands in place of the mutual-information estimator, and arithmetic is exact.
\<close>

definition is_digit :: "char \<Rightarrow> bool" where
  "is_digit c = (let n = (of_char c :: nat) in 48 \<le> n \<and> n \<le> 57)"

definition iso_date :: "string \<Rightarrow> bool" where
  "iso_date s =
     (case s of
        [y1, y2, y3, y4, d1, m1, m2, d2, t1, t2] \<Rightarrow>
          list_all is_digit [y1, y2, y3, y4, m1, m2, t1, t2] \<and> d1 = CHR ''-'' \<and> d2 = CHR ''-''
      | _ \<Rightarrow> False)"

fun epoch_or_iso_dates :: "series \<Rightarrow> bool" where
  "epoch_or_iso_dates (IntS xs) = True"
| "epoch_or_iso_dates (FloatS xs) =
     list_all (\<lambda>v. case v of None \<Rightarrow> True | Some r \<Rightarrow> \<bar>r\<bar> < 2 ^ 63) xs"
| "epoch_or_iso_dates (BoolS xs) = False"
| "epoch_or_iso_dates (StrS xs) =
     list_all (\<lambda>v. case v of None \<Rightarrow> True | Some t \<Rightarrow> iso_date t) xs"

definition pair_credit :: "real \<Rightarrow> real \<Rightarrow> real" where
  "pair_credit p n = (if n < p then 1 else if n = p then 1 / 2 else 0)"

definition pairwise_auc :: "int list \<Rightarrow> real option list \<Rightarrow> real option" where
  "pairwise_auc y x =
     (if length y \<noteq> length x \<or> list_ex (\<lambda>v. v = None) x
         \<or> list_ex (\<lambda>l. l \<noteq> 0 \<and> l \<noteq> 1) y then None
      else
        let pos = map snd (filter (\<lambda>(l, v). l = 1) (zip y (dropna x)));
            neg = map snd (filter (\<lambda>(l, v). l = 0) (zip y (dropna x)))
        in if pos = [] \<or> neg = [] then None
           else Some ((\<Sum>p\<leftarrow>pos. \<Sum>n\<leftarrow>neg. pair_credit p n)
                        / (real (length pos) * real (length neg))))"

definition association :: "(string \<times> real list) list \<Rightarrow> int list \<Rightarrow> real list" where
  "association X y =
     map (\<lambda>(c, xs). \<bar>\<Sum>(l, v)\<leftarrow>zip y xs. if l = 1 then v else - v\<bar> / real (Suc (length xs))) X"

definition sample_library :: library where
  "sample_library =
     \<lparr>to_datetime_ok = epoch_or_iso_dates, roc_auc_score = pairwise_auc,
      mutual_info_classif = association, fl = (\<lambda>r. r)\<rparr>"

section \<open>Sample datasets\<close>

definition frame_with_diagnosis :: dataframe where
  "frame_with_diagnosis =
     [(''Smoker'', IntS [0, 1, 1]), (''label'', BoolS [True, False, True]),
      (''Diagnosis'', StrS [Some ''AD'', Some ''CN'', None]),
      (''Sex'', FloatS [Some 0, None, Some 1])]"

definition frame_two_binary :: dataframe where
  "frame_two_binary =
     [(''Age'', IntS [71, 64, 80]), (''Smoker'', IntS [0, 1, 1]),
      (''FamilyHistory'', FloatS [Some 1, None, Some 0]),
      (''Sex'', StrS [Some ''F'', Some ''M'', Some ''F''])]"

definition frame_hint_inside_name :: dataframe where
  "frame_hint_inside_name = [(''Alz_Outcome'', IntS [2, 3, 2]), (''Smoker'', IntS [0, 1, 0])]"




definition frame_90 :: dataframe where
  "frame_90 =
     [(''Date'', IntS (map (\<lambda>i. 1930 + int i) [0..<90])),
      (''Diagnosis'', IntS (map (\<lambda>i. int (i mod 2)) [0..<90]))]"

definition frame_500 :: dataframe where
  "frame_500 =
     [(''Date'', IntS (map (\<lambda>i. 1500 + int i) [0..<500])),
      (''Diagnosis'', IntS (map (\<lambda>i. int (i mod 2)) [0..<500]))]"

definition skipped_msg :: string where
  "skipped_msg = ''No date/year column detected; temporal split skipped.''"

definition frame_leakage :: dataframe where
  "frame_leakage =
     [(''Age'', IntS [60, 72, 75, 80, 71, 58]),
      (''Copy'', IntS [0, 1, 0, 1, 1, 0]),
      (''Stage'', IntS [0, 2, 0, 2, 2, 0]),
      (''Gender'', StrS [Some ''F'', Some ''M'', Some ''F'', Some ''M'', None, Some ''M'']),
      (''BMI'', FloatS [Some 21, None, Some 30, Some 25, Some 27, Some 22]),
      (''Diagnosis'', IntS [0, 1, 0, 1, 1, 0])]"

definition labels_leakage :: "int list" where
  "labels_leakage = [0, 1, 0, 1, 1, 0]"


section \<open>Target detection: properties\<close>

lemma hint_loop_None: "(\<And>h. h \<in> set hs \<Longrightarrow> lc h = None) \<Longrightarrow> hint_loop lc hs = None"
  by (induction hs) auto

lemma lower_cols_None:
  assumes "\<And>c. c \<in> set (columns df) \<Longrightarrow> lower c \<noteq> h"
  shows "lower_cols df h = None"
  unfolding lower_cols_def using assms by (force simp: map_of_eq_None_iff image_iff)

text \<open>
  C9. A dataset with a column named \<^verbatim>\<open>Diagnosis\<close> resolves to that column, whatever
  other binary-valued or hint-named columns it has; no error is raised.
\<close>

theorem detect_target_Diagnosis:
  "''Diagnosis'' \<in> set (columns df) \<Longrightarrow> detect_target df = Inr ''Diagnosis''"
  by (simp add: detect_target_def TARGET_PREFERRED_def)

theorem detect_target_Diagnosis_witness:
  "''Diagnosis'' \<in> set (columns frame_with_diagnosis)
   \<and> binary_candidates frame_with_diagnosis = [''Smoker'', ''label'', ''Sex'']
   \<and> lower_cols frame_with_diagnosis ''label'' = Some ''label''
   \<and> detect_target frame_with_diagnosis = Inr ''Diagnosis''"
proof -
  have h: "''Diagnosis'' \<in> set (columns frame_with_diagnosis)" by code_simp
  have b: "binary_candidates frame_with_diagnosis = [''Smoker'', ''label'', ''Sex'']"
    by code_simp
  have l: "lower_cols frame_with_diagnosis ''label'' = Some ''label''" by code_simp
  from h b l detect_target_Diagnosis [OF h] show ?thesis by blast
qed

text \<open>
  C2. When no column is named \<^verbatim>\<open>Diagnosis\<close> or \<^verbatim>\<open>diagnosis\<close>, no lowercased column
  name is a hint word, and the binary-valued columns are exactly \<open>a\<close> and \<open>b\<close>, target
  detection raises the error of line 103 (a \<^verbatim>\<open>ValueError\<close>, the specification's
  \<^verbatim>\<open>TargetAmbiguous\<close>), whose message lists \<open>a\<close> and \<open>b\<close> and nothing else as
  candidates; no target is returned.
\<close>

theorem detect_target_ambiguous:
  assumes "''Diagnosis'' \<notin> set (columns df)" and "''diagnosis'' \<notin> set (columns df)"
    and "\<forall>c \<in> set (columns df). lower c \<notin> set TARGET_CANDIDATE_HINTS"
    and "binary_candidates df = [a, b]"
  shows "detect_target df =
     Inl (ValueError (''Unable to uniquely determine target column. Candidates: ''
       @ a @ '', '' @ b @ ''. Please rename your target to 'Diagnosis' or pass explicitly.''))"
proof -
  have p: "preferred_loop df TARGET_PREFERRED = None"
    using assms(1,2) by (simp add: TARGET_PREFERRED_def)
  have "\<And>h. h \<in> set TARGET_CANDIDATE_HINTS \<Longrightarrow> lower_cols df h = None"
    using assms(3) by (intro lower_cols_None) auto
  then have h: "hint_loop (lower_cols df) TARGET_CANDIDATE_HINTS = None"
    by (rule hint_loop_None)
  show ?thesis
    using p h assms(4) by (simp add: detect_target_def ambiguous_msg_def)
qed

theorem detect_target_ambiguous_witness:
  "''Diagnosis'' \<notin> set (columns frame_two_binary)
   \<and> ''diagnosis'' \<notin> set (columns frame_two_binary)
   \<and> list_all (\<lambda>c. lower c \<notin> set TARGET_CANDIDATE_HINTS) (columns frame_two_binary)
   \<and> binary_candidates frame_two_binary = [''Smoker'', ''FamilyHistory'']
   \<and> detect_target frame_two_binary =
     Inl (ValueError (''Unable to uniquely determine target column. Candidates: ''
       @ ''Smoker'' @ '', '' @ ''FamilyHistory''
       @ ''. Please rename your target to 'Diagnosis' or pass explicitly.''))"
proof -
  have 1: "''Diagnosis'' \<notin> set (columns frame_two_binary)" by code_simp
  have 2: "''diagnosis'' \<notin> set (columns frame_two_binary)" by code_simp
  have 3: "list_all (\<lambda>c. lower c \<notin> set TARGET_CANDIDATE_HINTS) (columns frame_two_binary)"
    by code_simp
  then have h3: "\<forall>c \<in> set (columns frame_two_binary). lower c \<notin> set TARGET_CANDIDATE_HINTS"
    unfolding list_all_iff .
  have 4: "binary_candidates frame_two_binary = [''Smoker'', ''FamilyHistory'']" by code_simp
  from 1 2 3 4 detect_target_ambiguous [OF 1 2 h3 4] show ?thesis by blast
qed

text \<open>
  C3. The hint words are looked up as keys of the dictionary of lowercased names, so a
  hint matches a whole name only. In the dataset below no column is named
  \<^verbatim>\<open>Diagnosis\<close> or \<^verbatim>\<open>diagnosis\<close>, and the lowercased name of \<^verbatim>\<open>Alz_Outcome\<close>
  contains the hints \<^verbatim>\<open>alz\<close> and \<^verbatim>\<open>outcome\<close>; detection falls through to the
  binary-values fallback and returns \<^verbatim>\<open>Smoker\<close>.
\<close>

theorem detect_target_hint_inside_name:
  "''Diagnosis'' \<notin> set (columns frame_hint_inside_name)
   \<and> ''diagnosis'' \<notin> set (columns frame_hint_inside_name)
   \<and> contains ''alz'' (lower ''Alz_Outcome'')
   \<and> contains ''outcome'' (lower ''Alz_Outcome'')
   \<and> hint_loop (lower_cols frame_hint_inside_name) TARGET_CANDIDATE_HINTS = None
   \<and> detect_target frame_hint_inside_name = Inr ''Smoker''"
  by code_simp

section \<open>Temporal column detection: properties\<close>








section \<open>Temporal feasibility: properties\<close>

lemma contains_Nil: "contains (x # t) s \<Longrightarrow> s \<noteq> []"
  by (cases s) auto

lemma find_columns_nonempty:
  assumes "c \<in> set (find_columns_by_tokens df tokens)" and "[] \<notin> set tokens"
  shows "c \<noteq> []"
proof -
  from assms(1) obtain t where t: "t \<in> set tokens" "contains t (lower c)"
    by (auto simp: find_columns_by_tokens_def list_ex_iff)
  with assms(2) obtain x u where "t = x # u" by (cases t) auto
  with t(2) have "lower c \<noteq> []" by (auto dest: contains_Nil)
  then show ?thesis by (auto simp: lower_def)
qed

lemma date_loop_mem: "date_loop lib df cs = Some c \<Longrightarrow> c \<in> set cs"
  by (induction cs) (auto split: option.splits if_splits)

lemma get_date_column_mem:
  assumes "get_date_column lib df = Some c"
  shows "c \<in> set (find_columns_by_tokens df DATE_TOKENS)"
  using assms unfolding get_date_column_def Let_def
  by (auto split: option.splits list.splits dest: date_loop_mem)

lemma get_date_column_nonempty: "get_date_column lib df = Some c \<Longrightarrow> c \<noteq> []"
  by (rule find_columns_nonempty [OF get_date_column_mem]) (simp_all add: DATE_TOKENS_def)

text \<open>
  C8 (amended). When a temporal column \<open>c\<close> is detected (and the target is a column),
  the report holds the sizes \<open>tr\<close>, \<open>va - tr\<close> and \<open>n - va\<close>, where \<open>n\<close> is the
  row count and \<open>tr\<close>, \<open>va\<close> are \<^verbatim>\<open>int(0.7 * n)\<close> and \<^verbatim>\<open>int(0.85 * n)\<close> computed in
  double precision. When no temporal column is detected, the report states that the split
  was skipped and holds no sizes.
\<close>

theorem temporal_split_sizes:
  "(get_date_column lib df = Some c \<and> target \<in> set (columns df) \<longrightarrow>
      temporal_site_validation lib df target =
        Inr \<lparr>temporal =
               TemporalSizes c
                 (int_of_product DOUBLE_0_7 (nrows df))
                 (int_of_product DOUBLE_0_85 (nrows df) - int_of_product DOUBLE_0_7 (nrows df))
                 (int (nrows df) - int_of_product DOUBLE_0_85 (nrows df)),
             site = site_part df\<rparr>)
   \<and> (get_date_column lib df = None \<longrightarrow>
      temporal_site_validation lib df target =
        Inr \<lparr>temporal = TemporalSkipped skipped_msg, site = site_part df\<rparr>)"
  by (auto simp: temporal_site_validation_def temporal_part_def Let_def skipped_msg_def
      dest: get_date_column_nonempty)

lemma columns_Cons: "columns ((c, s) # df) = c # columns df"
  by (simp add: columns_def)

lemma columns_Nil: "columns [] = []"
  by (simp add: columns_def)

lemma date_tokens_eval:
  "sort (remdups (filter (\<lambda>c. list_ex (\<lambda>t. contains t (lower c)) DATE_TOKENS)
     [''Date'', ''Diagnosis''])) = [''Date'']"
  by code_simp

lemma get_date_column_Date:
  "get_date_column lib [(''Date'', IntS xs), (''Diagnosis'', s)] = Some ''Date''"
  unfolding get_date_column_def find_columns_by_tokens_def columns_Cons columns_Nil
    date_tokens_eval
  by (simp add: getcol_def)

lemma product_500: "int_of_product DOUBLE_0_7 500 = 350 \<and> int_of_product DOUBLE_0_85 500 = 425"
  by (simp add: int_of_product_def DOUBLE_0_7_def DOUBLE_0_85_def float_of_nat_def
      round_to_53_def Let_def)

lemma product_90: "int_of_product DOUBLE_0_7 90 = 62 \<and> int_of_product DOUBLE_0_85 90 = 76"
  by (simp add: int_of_product_def DOUBLE_0_7_def DOUBLE_0_85_def float_of_nat_def
      round_to_53_def Let_def)

text \<open>For 500 rows the sizes are 350, 75 and 75.\<close>

theorem temporal_split_sizes_witness:
  "get_date_column sample_library frame_500 = Some ''Date''
   \<and> ''Diagnosis'' \<in> set (columns frame_500)
   \<and> nrows frame_500 = 500
   \<and> map_sum id temporal (temporal_site_validation sample_library frame_500 ''Diagnosis'')
       = Inr (TemporalSizes ''Date'' 350 75 75)"
proof -
  have 1: "get_date_column sample_library frame_500 = Some ''Date''"
    unfolding frame_500_def by (rule get_date_column_Date)
  have 2: "''Diagnosis'' \<in> set (columns frame_500)"
    by (simp add: frame_500_def columns_def)
  have 3: "nrows frame_500 = 500"
    by (simp add: frame_500_def)
  have "map_sum id temporal (temporal_site_validation sample_library frame_500 ''Diagnosis'')
       = Inr (TemporalSizes ''Date'' 350 75 75)"
    using temporal_split_sizes [of sample_library frame_500 "''Date''" "''Diagnosis''"] 1 2
    by (simp add: 3 product_500)
  with 1 2 3 show ?thesis by blast
qed

text \<open>
  The sizes are not always the exact floors: for 90 rows the double product
  \<^verbatim>\<open>0.7 * 90\<close> is \<^verbatim>\<open>62.99999999999999\<close>, so the report holds 62, 14 and 14 where
  \<open>\<lfloor>0.7 * 90\<rfloor> = 63\<close> and \<open>\<lfloor>0.85 * 90\<rfloor> - \<lfloor>0.7 * 90\<rfloor> = 13\<close>.
\<close>

theorem temporal_split_sizes_counterexample:
  "get_date_column sample_library frame_90 = Some ''Date''
   \<and> nrows frame_90 = 90
   \<and> exact_train_end 90 = 63
   \<and> exact_val_end 90 - exact_train_end 90 = 13
   \<and> map_sum id temporal (temporal_site_validation sample_library frame_90 ''Diagnosis'')
       = Inr (TemporalSizes ''Date'' 62 14 14)"
proof -
  have 1: "get_date_column sample_library frame_90 = Some ''Date''"
    unfolding frame_90_def by (rule get_date_column_Date)
  have 2: "''Diagnosis'' \<in> set (columns frame_90)"
    by (simp add: frame_90_def columns_def)
  have 3: "nrows frame_90 = 90"
    by (simp add: frame_90_def)
  have 4: "exact_train_end 90 = 63" "exact_val_end 90 - exact_train_end 90 = 13"
    by (simp_all add: exact_train_end_def exact_val_end_def)
  have "map_sum id temporal (temporal_site_validation sample_library frame_90 ''Diagnosis'')
       = Inr (TemporalSizes ''Date'' 62 14 14)"
    using 1 2
    by (simp add: temporal_site_validation_def temporal_part_def Let_def 3 product_90)
  with 1 3 4 show ?thesis by blast
qed

section \<open>Leakage scoring: properties\<close>

lemma chance_distance_lower:
  assumes "mono (fl lib)" and "fl lib (1 / 2) = 1 / 2"
  shows "1 / 2 \<le> chance_distance lib s"
proof (cases "1 / 2 \<le> s")
  case True
  then show ?thesis by (simp add: chance_distance_def max_def)
next
  case False
  then have "1 / 2 \<le> 1 - s" by simp
  with assms(1) have "fl lib (1 / 2) \<le> fl lib (1 - s)" by (rule monoD)
  then show ?thesis using assms(2) by (simp add: chance_distance_def max_def)
qed

lemma chance_distance_upper:
  assumes "mono (fl lib)" and "fl lib 1 = 1" and "0 \<le> s" and "s \<le> 1"
  shows "chance_distance lib s \<le> 1"
proof -
  have "1 - s \<le> 1" using assms(3) by simp
  with assms(1) have "fl lib (1 - s) \<le> fl lib 1" by (rule monoD)
  then show ?thesis using assms(2,4) by (simp add: chance_distance_def)
qed

lemma chance_distance_pos:
  assumes "mono (fl lib)" and "fl lib 1 = 1"
  shows "0 < chance_distance lib s"
proof (cases "0 < s")
  case True
  then show ?thesis by (simp add: chance_distance_def max_def)
next
  case False
  then have "1 \<le> 1 - s" by simp
  with assms(1) have "fl lib 1 \<le> fl lib (1 - s)" by (rule monoD)
  then show ?thesis using assms(2) by (simp add: chance_distance_def max_def)
qed

lemma auc_loop_values:
  assumes "auc_loop lib df y cs aucs c = Some v"
    and "\<And>k w. aucs k = Some w \<Longrightarrow> P w"
    and "\<And>k s. feature_score lib df y k = Some s \<Longrightarrow> P (chance_distance lib s)"
  shows "P v"
  using assms
proof (induction cs arbitrary: aucs)
  case Nil
  then show ?case by simp
next
  case (Cons k cs)
  show ?case
  proof (cases "feature_score lib df y k")
    case None
    with Cons.prems(1) have "auc_loop lib df y cs aucs c = Some v" by simp
    then show ?thesis using Cons.prems(2,3) by (rule Cons.IH)
  next
    case (Some s)
    with Cons.prems(1)
    have "auc_loop lib df y cs (aucs(k \<mapsto> chance_distance lib s)) c = Some v" by simp
    then show ?thesis
    proof (rule Cons.IH)
      fix k' w assume "(aucs(k \<mapsto> chance_distance lib s)) k' = Some w"
      then show "P w"
        using Cons.prems(2,3) Some by (auto split: if_splits)
    qed (rule Cons.prems(3))
  qed
qed

lemma feature_score_roc:
  assumes "feature_score lib df y c = Some s"
  shows "\<exists>x. roc_auc_score lib y x = Some s"
  using assms unfolding feature_score_def
  by (auto split: option.splits if_splits series.splits)

text \<open>
  C10. Every discriminative score that \<^verbatim>\<open>single_feature_auc\<close> records lies in
  \<open>[0.5, 1]\<close>. The library contributes two facts: \<^verbatim>\<open>roc_auc_score\<close> returns values
  in \<open>[0, 1]\<close>, and the rounding of \<^verbatim>\<open>1 - score\<close> to a double is monotone and leaves
  \<open>0.5\<close> and \<open>1\<close> unchanged. The lower bound does not need the first fact.
\<close>

theorem single_feature_auc_range:
  assumes "mono (fl lib)" and "fl lib (1 / 2) = 1 / 2" and "fl lib 1 = 1"
    and "\<forall>y x s. roc_auc_score lib y x = Some s \<longrightarrow> 0 \<le> s \<and> s \<le> 1"
    and "single_feature_auc lib df y c = Some v"
  shows "1 / 2 \<le> v \<and> v \<le> 1"
proof -
  have "auc_loop lib df y (columns df) Map.empty c = Some v"
    using assms(5) by (simp add: single_feature_auc_def)
  then show ?thesis
  proof (rule auc_loop_values)
    fix k s assume "feature_score lib df y k = Some s"
    then obtain x where "roc_auc_score lib y x = Some s"
      using feature_score_roc by blast
    with assms(4) have "0 \<le> s" "s \<le> 1" by blast+
    then show "1 / 2 \<le> chance_distance lib s \<and> chance_distance lib s \<le> 1"
      using chance_distance_lower [OF assms(1,2)] chance_distance_upper [OF assms(1,3)]
      by blast
  qed simp
qed

lemma single_feature_auc_pos:
  assumes "mono (fl lib)" and "fl lib 1 = 1" and "single_feature_auc lib df y c = Some v"
  shows "0 < v"
proof -
  have "auc_loop lib df y (columns df) Map.empty c = Some v"
    using assms(3) by (simp add: single_feature_auc_def)
  then show ?thesis
    by (rule auc_loop_values) (simp_all add: chance_distance_pos assms(1,2))
qed

subsection \<open>The pairwise scorer of the sample library\<close>

lemma pair_credit_range: "0 \<le> pair_credit p n \<and> pair_credit p n \<le> 1"
  by (simp add: pair_credit_def)

lemma sum_list_bounds:
  fixes f :: "'a \<Rightarrow> real"
  assumes "\<And>x. x \<in> set xs \<Longrightarrow> 0 \<le> f x \<and> f x \<le> b"
  shows "0 \<le> sum_list (map f xs) \<and> sum_list (map f xs) \<le> real (length xs) * b"
  using assms
proof (induction xs)
  case Nil
  then show ?case by simp
next
  case (Cons a xs)
  have "0 \<le> f a \<and> f a \<le> b" using Cons.prems by simp
  moreover have "0 \<le> sum_list (map f xs) \<and> sum_list (map f xs) \<le> real (length xs) * b"
    using Cons.prems by (intro Cons.IH) simp
  ultimately show ?case by (simp add: algebra_simps)
qed

lemma pairwise_auc_range:
  assumes "pairwise_auc y x = Some s"
  shows "0 \<le> s \<and> s \<le> 1"
proof -
  define pos where "pos = map snd (filter (\<lambda>(l, v). l = 1) (zip y (dropna x)))"
  define neg where "neg = map snd (filter (\<lambda>(l, v). l = 0) (zip y (dropna x)))"
  define total where "total = (\<Sum>p\<leftarrow>pos. \<Sum>n\<leftarrow>neg. pair_credit p n)"
  from assms have ne: "pos \<noteq> []" "neg \<noteq> []"
    and s: "s = total / (real (length pos) * real (length neg))"
    unfolding pairwise_auc_def pos_def neg_def total_def Let_def
    by (auto split: if_splits)
  have inner: "0 \<le> (\<Sum>n\<leftarrow>neg. pair_credit p n) \<and> (\<Sum>n\<leftarrow>neg. pair_credit p n) \<le> real (length neg)" for p
    using sum_list_bounds [of neg "pair_credit p" 1] pair_credit_range by simp
  have "0 \<le> total \<and> total \<le> real (length pos) * real (length neg)"
    unfolding total_def using sum_list_bounds [of pos "\<lambda>p. \<Sum>n\<leftarrow>neg. pair_credit p n" "real (length neg)"] inner
    by simp
  moreover have "0 < real (length pos) * real (length neg)"
    using ne by simp
  ultimately show ?thesis unfolding s by (simp add: divide_le_eq)
qed

lemma sample_library_fl: "mono (fl sample_library)" "fl sample_library (1 / 2) = 1 / 2"
  "fl sample_library 1 = 1"
  by (simp_all add: sample_library_def mono_def)

lemma sample_library_roc:
  "\<forall>y x s. roc_auc_score sample_library y x = Some s \<longrightarrow> 0 \<le> s \<and> s \<le> 1"
  by (simp add: sample_library_def pairwise_auc_range)

theorem single_feature_auc_range_witness:
  "single_feature_auc sample_library (drop_target frame_leakage ''Diagnosis'') labels_leakage
     ''Age'' = Some (7 / 9)
   \<and> (1 / 2 :: real) \<le> 7 / 9 \<and> (7 / 9 :: real) \<le> 1"
proof -
  have v: "single_feature_auc sample_library (drop_target frame_leakage ''Diagnosis'')
     labels_leakage ''Age'' = Some (7 / 9)"
    by code_simp
  from single_feature_auc_range [OF sample_library_fl sample_library_roc v] v
  show ?thesis by blast
qed

subsection \<open>Symmetry under complementation\<close>

lemma getcol_mem: "getcol X c = Some s \<Longrightarrow> c \<in> set (columns X)"
  by (auto simp: getcol_def columns_def dest: map_of_SomeD intro: rev_image_eqI)















section \<open>The leakage report: properties\<close>

lemma key_le_precedes:
  assumes "suspicious_key t \<le> suspicious_key u"
    and "\<And>x. fst (snd t) = Some x \<Longrightarrow> 0 < x"
    and "\<And>x. fst (snd u) = Some x \<Longrightarrow> 0 < x"
  shows "precedes t u"
proof -
  obtain c a m where t: "t = (c, a, m)" by (cases t)
  obtain d b k where u: "u = (d, b, k)" by (cases u)
  show ?thesis
    using assms unfolding t u
    by (auto simp: suspicious_key_def precedes_def nan_key_def mi_or_zero_def
        split: option.splits)
qed

lemma suspicious_entries:
  assumes "t \<in> set (suspicious aucs mi df target)"
  shows "fst (snd t) = aucs (fst t) \<and> snd (snd t) = mi (fst t)
    \<and> fst t \<in> set (columns df) \<and> fst t \<noteq> target"
  using assms by (auto simp: suspicious_def)

lemma suspicious_sorted: "sorted (map suspicious_key (suspicious aucs mi df target))"
  by (simp add: suspicious_def)

lemma take_sorted_keys:
  assumes "sorted (map f xs)" and "i < j" and "j < length (take n xs)"
  shows "f (take n xs ! i) \<le> f (take n xs ! j)"
proof -
  from assms(2,3) have j: "j < n" "j < length xs" and i: "i < n" "i < length xs" by simp_all
  have "map f xs ! i \<le> map f xs ! j"
    using assms(1,2) j(2) by (simp add: sorted_iff_nth_mono_less)
  then show ?thesis using i j by simp
qed

text \<open>
  C5. The "top suspicious" list has at most 30 entries and is ordered: an entry with a
  discriminative score comes before every entry without one, discriminative scores
  descend, and entries with equal discriminative scores (or both without one) are in
  descending order of mutual information, a missing mutual information counting as 0.
  The library contributes that the rounding of \<^verbatim>\<open>1 - score\<close> is monotone and leaves
  \<open>1\<close> unchanged, which makes every recorded discriminative score positive.
\<close>

theorem top_suspicious_sorted:
  assumes "mono (fl lib)" and "fl lib 1 = 1"
    and "top_suspicious lib df target y = Inr L"
  shows "length L \<le> 30 \<and> (\<forall>i j. i < j \<and> j < length L \<longrightarrow> precedes (L ! i) (L ! j))"
proof -
  define aucs where "aucs = single_feature_auc lib (drop_target df target) y"
  from assms(3) obtain mi where L: "L = take 30 (suspicious aucs mi df target)"
    by (auto simp: top_suspicious_def aucs_def Let_def split: sum.splits)
  have pos: "0 < x" if "t \<in> set L" "fst (snd t) = Some x" for t x
  proof -
    from that(1) have "t \<in> set (suspicious aucs mi df target)"
      unfolding L by (rule in_set_takeD)
    then have "aucs (fst t) = Some x" using that(2) suspicious_entries by metis
    then show ?thesis
      unfolding aucs_def using assms(1,2) single_feature_auc_pos by blast
  qed
  have "precedes (L ! i) (L ! j)" if "i < j" "j < length L" for i j
  proof (rule key_le_precedes)
    show "suspicious_key (L ! i) \<le> suspicious_key (L ! j)"
      using that unfolding L by (intro take_sorted_keys suspicious_sorted)
    show "0 < x" if "fst (snd (L ! i)) = Some x" for x
      using pos [of "L ! i" x] that \<open>i < j\<close> \<open>j < length L\<close> by simp
    show "0 < x" if "fst (snd (L ! j)) = Some x" for x
      using pos [of "L ! j" x] that \<open>j < length L\<close> by simp
  qed
  moreover have "length L \<le> 30" unfolding L by simp
  ultimately show ?thesis by blast
qed

theorem top_suspicious_sorted_witness:
  "top_suspicious sample_library frame_leakage ''Diagnosis'' labels_leakage =
     Inr [(''Stage'', Some 1, Some (6 / 7)), (''Copy'', Some 1, Some (3 / 7)),
          (''Age'', Some (7 / 9), Some (30 / 7)), (''Gender'', Some (1 / 2), None),
          (''BMI'', None, Some 3)]
   \<and> precedes (''Stage'', Some 1, Some (6 / 7)) (''Copy'', Some 1, Some (3 / 7))
   \<and> precedes (''Copy'', Some 1, Some (3 / 7)) (''Age'', Some (7 / 9), Some (30 / 7))
   \<and> precedes (''Gender'', Some (1 / 2), None) (''BMI'', None, Some 3)"
proof -
  define L :: "entry list" where
    "L = [(''Stage'', Some 1, Some (6 / 7)), (''Copy'', Some 1, Some (3 / 7)),
          (''Age'', Some (7 / 9), Some (30 / 7)), (''Gender'', Some (1 / 2), None),
          (''BMI'', None, Some 3)]"
  have r: "top_suspicious sample_library frame_leakage ''Diagnosis'' labels_leakage = Inr L"
    unfolding L_def by code_simp
  have ord: "\<forall>i j. i < j \<and> j < length L \<longrightarrow> precedes (L ! i) (L ! j)"
    using top_suspicious_sorted [OF sample_library_fl(1,3) r] by blast
  have len: "length L = 5" by (simp add: L_def)
  have "precedes (L ! 0) (L ! 1)" "precedes (L ! 1) (L ! 2)" "precedes (L ! 3) (L ! 4)"
    using ord [rule_format, of 0 1] ord [rule_format, of 1 2] ord [rule_format, of 3 4] len
    by simp_all
  then have "precedes (''Stage'', Some 1, Some (6 / 7)) (''Copy'', Some 1, Some (3 / 7))"
    "precedes (''Copy'', Some 1, Some (3 / 7)) (''Age'', Some (7 / 9), Some (30 / 7))"
    "precedes (''Gender'', Some (1 / 2), None) (''BMI'', None, Some 3)"
    by (simp_all add: L_def)
  with r show ?thesis unfolding L_def by blast
qed

subsection \<open>Mutual information of categorical columns\<close>

lemma prefixed_dummies_names:
  assumes "n \<in> set (columns (prefixed_dummies c s))"
  shows "CHR ''_'' \<in> set n"
  using assms by (auto simp: prefixed_dummies_def columns_def split: series.splits)

lemma columns_append: "columns (X @ Y) = columns X @ columns Y"
  by (simp add: columns_def)

lemma columns_drop_label: "c \<notin> set (columns (filter (\<lambda>(n, t). n \<noteq> c) X))"
  by (auto simp: columns_def)

lemma columns_filter_subset: "set (columns (filter P X)) \<subseteq> set (columns X)"
  by (auto simp: columns_def)

lemma getcol_filter_other:
  "c \<noteq> k \<Longrightarrow> getcol (filter (\<lambda>(n, t). n \<noteq> k) X) c = getcol X c"
  by (induction X) (auto simp: getcol_def)

lemma getcol_append_found: "getcol X c = Some s \<Longrightarrow> getcol (X @ Y) c = Some s"
  by (simp add: getcol_def map_add_Some_iff)

lemma encode_loop_absent:
  assumes "c \<notin> set (columns X_enc)" and "CHR ''_'' \<notin> set c"
    and "encode_loop cs X_enc = Inr X'"
  shows "c \<notin> set (columns X')"
  using assms
proof (induction cs arbitrary: X_enc)
  case Nil
  then show ?case by simp
next
  case (Cons k cs)
  from Cons.prems(3) obtain s where s: "getcol X_enc k = Some s"
    by (auto split: option.splits)
  show ?case
  proof (cases "is_numeric_dtype s")
    case True
    with Cons.prems(3) s have "encode_loop cs X_enc = Inr X'" by simp
    with Cons.prems(1,2) show ?thesis by (rule Cons.IH)
  next
    case False
    let ?X = "filter (\<lambda>(n, t). n \<noteq> k) X_enc @ prefixed_dummies k s"
    from Cons.prems(3) s False have run: "encode_loop cs ?X = Inr X'" by simp
    have "c \<notin> set (columns ?X)"
      using Cons.prems(1,2) columns_filter_subset [of "\<lambda>(n, t). n \<noteq> k" X_enc]
        prefixed_dummies_names [of c k s]
      by (auto simp: columns_append)
    then show ?thesis using Cons.prems(2) run by (rule Cons.IH)
  qed
qed

lemma encode_loop_removes:
  assumes "c \<in> set cs" and "getcol X_enc c = Some s" and "\<not> is_numeric_dtype s"
    and "CHR ''_'' \<notin> set c" and "encode_loop cs X_enc = Inr X'"
  shows "c \<notin> set (columns X')"
  using assms
proof (induction cs arbitrary: X_enc)
  case Nil
  then show ?case by simp
next
  case (Cons k cs)
  show ?case
  proof (cases "k = c")
    case True
    let ?X = "filter (\<lambda>(n, t). n \<noteq> c) X_enc @ prefixed_dummies c s"
    from Cons.prems(2,3,5) True have run: "encode_loop cs ?X = Inr X'" by simp
    have "c \<notin> set (columns ?X)"
      using Cons.prems(4) columns_drop_label [of c X_enc] prefixed_dummies_names [of c c s]
      by (auto simp: columns_append)
    then show ?thesis using Cons.prems(4) run by (rule encode_loop_absent)
  next
    case False
    with Cons.prems(1) have mem: "c \<in> set cs" by simp
    from Cons.prems(5) obtain t where t: "getcol X_enc k = Some t"
      by (auto split: option.splits)
    show ?thesis
    proof (cases "is_numeric_dtype t")
      case True
      with Cons.prems(5) t have "encode_loop cs X_enc = Inr X'" by simp
      with mem Cons.prems(2,3,4) show ?thesis by (rule Cons.IH)
    next
      case nonnum: False
      let ?X = "filter (\<lambda>(n, u). n \<noteq> k) X_enc @ prefixed_dummies k t"
      from Cons.prems(5) t nonnum have run: "encode_loop cs ?X = Inr X'" by simp
      have "getcol ?X c = Some s"
        using Cons.prems(2) False by (simp add: getcol_append_found getcol_filter_other)
      with mem show ?thesis using Cons.prems(3,4) run by (rule Cons.IH)
    qed
  qed
qed

lemma map_of_zip_absent: "c \<notin> set ks \<Longrightarrow> map_of (rev (zip ks vs)) c = None"
  by (auto simp: map_of_eq_None_iff dest: set_zip_leftD)

lemma mutual_info_scores_categorical:
  assumes "getcol X c = Some (StrS xs)" and "CHR ''_'' \<notin> set c"
    and "mutual_info_scores lib X y = Inr mi"
  shows "mi c = None"
proof -
  from assms(3) obtain X' where enc: "encode_loop (columns X) X = Inr X'"
    and mi: "mi = map_of (rev (zip (columns X')
        (mutual_info_classif lib (map (\<lambda>(n, s). (n, fillna0 s)) X') y)))"
    by (auto simp: mutual_info_scores_def Let_def split: sum.splits if_splits)
  have "c \<in> set (columns X)" using assms(1) by (rule getcol_mem)
  then have "c \<notin> set (columns X')"
    using assms(1) _ assms(2) enc by (rule encode_loop_removes) simp
  then show ?thesis unfolding mi by (rule map_of_zip_absent)
qed

lemma getcol_drop_target: "c \<noteq> target \<Longrightarrow> getcol (drop_target df target) c = getcol df c"
  unfolding drop_target_def by (rule getcol_filter_other)

text \<open>
  C4. \<^verbatim>\<open>mutual_info_scores\<close> keys its result by the columns of the encoded matrix, in
  which a categorical column \<^verbatim>\<open>c\<close> is replaced by indicator columns named
  \<^verbatim>\<open>c_value\<close>; the report looks the score up under the original name \<^verbatim>\<open>c\<close>. So the
  entry of every categorical feature (whose name has no underscore, which no indicator name
  can then equal) carries a missing mutual information, whatever the estimator returns.
\<close>

theorem categorical_mutual_info_missing:
  assumes "top_suspicious lib df target y = Inr L" and "(c, a, m) \<in> set L"
    and "getcol df c = Some (StrS xs)" and "CHR ''_'' \<notin> set c"
  shows "m = None"
proof -
  from assms(1) obtain mi
    where mi: "mutual_info_scores lib (drop_target df target) y = Inr mi"
      and L: "L = take 30 (suspicious (single_feature_auc lib (drop_target df target) y)
                 mi df target)"
    by (auto simp: top_suspicious_def Let_def split: sum.splits)
  from assms(2) have "(c, a, m) \<in> set (suspicious
      (single_feature_auc lib (drop_target df target) y) mi df target)"
    unfolding L by (rule in_set_takeD)
  then have m: "m = mi c" and "c \<noteq> target"
    using suspicious_entries by fastforce+
  then have "getcol (drop_target df target) c = Some (StrS xs)"
    using assms(3) by (simp add: getcol_drop_target)
  then have "mi c = None" using assms(4) mi by (rule mutual_info_scores_categorical)
  with m show ?thesis by simp
qed

text \<open>
  In the sample dataset the categorical feature \<^verbatim>\<open>Gender\<close> has a discriminative score
  and no mutual information: the scores are stored under \<^verbatim>\<open>Gender_F\<close>, \<^verbatim>\<open>Gender_M\<close>
  and \<^verbatim>\<open>Gender_nan\<close>.
\<close>

theorem categorical_mutual_info_missing_witness:
  "top_suspicious sample_library frame_leakage ''Diagnosis'' labels_leakage =
     Inr [(''Stage'', Some 1, Some (6 / 7)), (''Copy'', Some 1, Some (3 / 7)),
          (''Age'', Some (7 / 9), Some (30 / 7)), (''Gender'', Some (1 / 2), None),
          (''BMI'', None, Some 3)]
   \<and> getcol frame_leakage ''Gender''
       = Some (StrS [Some ''F'', Some ''M'', Some ''F'', Some ''M'', None, Some ''M''])
   \<and> CHR ''_'' \<notin> set ''Gender''
   \<and> map_sum id columns
        (encode_loop (columns (drop_target frame_leakage ''Diagnosis''))
           (drop_target frame_leakage ''Diagnosis''))
       = Inr [''Age'', ''Copy'', ''Stage'', ''BMI'', ''Gender_F'', ''Gender_M'', ''Gender_nan'']
   \<and> snd (snd (([(''Stage'', Some 1, Some (6 / 7)), (''Copy'', Some 1, Some (3 / 7)),
          (''Age'', Some (7 / 9), Some (30 / 7)), (''Gender'', Some (1 / 2), None),
          (''BMI'', None, Some 3)] :: entry list) ! 3)) = None"
proof -
  define L :: "entry list" where
    "L = [(''Stage'', Some 1, Some (6 / 7)), (''Copy'', Some 1, Some (3 / 7)),
          (''Age'', Some (7 / 9), Some (30 / 7)), (''Gender'', Some (1 / 2), None),
          (''BMI'', None, Some 3)]"
  have r: "top_suspicious sample_library frame_leakage ''Diagnosis'' labels_leakage = Inr L"
    unfolding L_def by code_simp
  have g: "getcol frame_leakage ''Gender''
       = Some (StrS [Some ''F'', Some ''M'', Some ''F'', Some ''M'', None, Some ''M''])"
    by code_simp
  have u: "CHR ''_'' \<notin> set ''Gender''" by simp
  have k: "map_sum id columns
        (encode_loop (columns (drop_target frame_leakage ''Diagnosis''))
           (drop_target frame_leakage ''Diagnosis''))
       = Inr [''Age'', ''Copy'', ''Stage'', ''BMI'', ''Gender_F'', ''Gender_M'', ''Gender_nan'']"
    by code_simp
  have e: "(''Gender'', fst (snd (L ! 3)), snd (snd (L ! 3))) \<in> set L"
    by (simp add: L_def)
  have m: "snd (snd (L ! 3)) = None"
    using categorical_mutual_info_missing [OF r e g u] .
  show ?thesis unfolding L_def [symmetric] by (intro conjI r g u k m)
qed


end
